theory Spec2Isabelle
  imports Complex_Main
begin

section \<open>Common data\<close>

text \<open>
  The optimizers of \<^verbatim>\<open>comb_opt\<close> work on encoded samples: one category index per
  dimension. The tensors of the source hold these indices, so a sample is an \<open>int list\<close>
  and a batch is a list of samples. Objective values are reals (the arithmetic of the
  source is read over the reals; rounding is outside this development).
  Python exceptions are values of \<open>py_error\<close>, and a function that can raise returns
  \<open>py_error + 'a\<close>.
\<close>

datatype py_error =
  AssertionError | ValueError | IndexError | TypeError | ZeroDivisionError |
  KeyError | AttributeError | RuntimeError

type_synonym sample = "int list"

text \<open>
  The part of \<^verbatim>\<open>SearchSpace\<close> that the trust-region manager and the optimizers read.
  The class itself lives outside the modelled files; its attributes are taken as given.
\<close>

record search_space =
  num_dims :: nat
  num_nominal :: nat
  num_ordinal :: nat
  nominal_dims :: "nat list"
  ordinal_dims :: "nat list"
  nominal_lb :: "int list"
  ordinal_lb :: "int list"
  nominal_ub :: "int list"
  ordinal_ub :: "int list"

section \<open>\<^verbatim>\<open>trust_region/tr_manager_base.py\<close>\<close>

record tr_manager =
  radii :: "string \<rightharpoonup> real"
  min_radii :: "string \<rightharpoonup> real"
  max_radii :: "string \<rightharpoonup> real"
  init_radii :: "string \<rightharpoonup> real"
  variable_types :: "string list"
  center :: "sample option"
  tm_search_space :: search_space

definition tr_manager_init :: "search_space \<Rightarrow> tr_manager" where
  "tr_manager_init sp =
     \<lparr>radii = Map.empty, min_radii = Map.empty, max_radii = Map.empty,
      init_radii = Map.empty, variable_types = [], center = None,
      tm_search_space = sp\<rparr>"

definition set_center :: "tr_manager \<Rightarrow> sample option \<Rightarrow> py_error + tr_manager" where
  "set_center tm c =
     (case c of
        None \<Rightarrow> Inr (tm\<lparr>center := None\<rparr>)
      | Some v \<Rightarrow>
          if length v = num_dims (tm_search_space tm) then Inr (tm\<lparr>center := Some v\<rparr>)
          else Inl AssertionError)"

definition register_radius ::
  "tr_manager \<Rightarrow> string \<Rightarrow> real \<Rightarrow> real \<Rightarrow> real \<Rightarrow> py_error + tr_manager" where
  "register_radius tm variable_type min_radius max_radius init_radius =
     (if min_radius < init_radius \<and> init_radius \<le> max_radius then
        Inr (tm\<lparr>variable_types := variable_types tm @ [variable_type],
                 radii := (radii tm)(variable_type \<mapsto> init_radius),
                 init_radii := (init_radii tm)(variable_type \<mapsto> init_radius),
                 min_radii := (min_radii tm)(variable_type \<mapsto> min_radius),
                 max_radii := (max_radii tm)(variable_type \<mapsto> max_radius)\<rparr>)
      else Inl AssertionError)"

definition get_nominal_radius :: "tr_manager \<Rightarrow> py_error + real" where
  "get_nominal_radius tm =
     (if num_nominal (tm_search_space tm) = 1 then Inr 1
      else (case radii tm ''nominal'' of
              None \<Rightarrow> Inl AssertionError
            | Some r \<Rightarrow> Inr r))"

section \<open>\<^verbatim>\<open>optimizers/genetic_algorithm.py\<close>: construction\<close>

text \<open>
  \<^verbatim>\<open>list.index\<close>: the first position of a value, \<^verbatim>\<open>ValueError\<close> when it is absent.
\<close>

fun list_index :: "'a list \<Rightarrow> 'a \<Rightarrow> py_error + nat" where
  "list_index [] v = Inl ValueError"
| "list_index (x # xs) v =
     (if x = v then Inr 0
      else (case list_index xs v of Inl e \<Rightarrow> Inl e | Inr k \<Rightarrow> Inr (Suc k)))"

fun collect :: "(py_error + 'a) list \<Rightarrow> py_error + 'a list" where
  "collect [] = Inr []"
| "collect (r # rs) =
     (case r of
        Inl e \<Rightarrow> Inl e
      | Inr v \<Rightarrow> (case collect rs of Inl e \<Rightarrow> Inl e | Inr vs \<Rightarrow> Inr (v # vs)))"

record genetic_algorithm =
  ga_search_space :: search_space
  pop_size :: int
  num_parents :: int
  num_elite :: int
  store_observations :: bool
  allow_repeating_suggestions :: bool
  ga_tr_manager :: "tr_manager option"
  ga_tr_center :: "sample option"
  x_pop :: "sample list"
  y_pop :: "real list"
  x_elite :: "sample list option"
  y_elite :: "real list option"
  x_queue :: "sample list"
  map_to_canonical :: "nat list"
  map_to_original :: "nat list"
  lb :: "int list"
  ub :: "int list"
  ga_buffer_x :: "sample list"
  ga_buffer_y :: "real list"
  ga_best_y :: "real option"
  ga_best_x :: "sample option"

text \<open>
  \<^verbatim>\<open>GeneticAlgorithm.__init__\<close>. The initial queue is drawn by samplers outside the
  modelled files (\<^verbatim>\<open>search_space.sample\<close>, or the trust-region neighbourhood sampler
  after the centre); \<open>sampled\<close> is what they returned. The assertions come in the order
  of the source: the variable kinds, the trust-region manager, then, after an odd
  \<^verbatim>\<open>num_elite\<close> was raised by one, \<^verbatim>\<open>num_parents >= num_elite\<close>.
\<close>

definition ga_init ::
  "search_space \<Rightarrow> int \<Rightarrow> int \<Rightarrow> int \<Rightarrow> bool \<Rightarrow> bool \<Rightarrow> tr_manager option \<Rightarrow> sample list
     \<Rightarrow> py_error + genetic_algorithm" where
  "ga_init sp pop_size0 num_parents0 num_elite0 store allow_rep tm sampled =
     (if num_nominal sp + num_ordinal sp \<noteq> num_dims sp then Inl AssertionError
      else if (case tm of None \<Rightarrow> False | Some t \<Rightarrow> radii t ''nominal'' = None)
        then Inl AssertionError
      else if (case tm of None \<Rightarrow> False | Some t \<Rightarrow> center t = None)
        then Inl AssertionError
      else
        let ne = (if num_elite0 mod 2 \<noteq> 0 then num_elite0 + 1 else num_elite0) in
        if \<not> num_parents0 \<ge> ne then Inl AssertionError
        else
          let tc = (case tm of None \<Rightarrow> None | Some t \<Rightarrow> center t);
              queue = (case tc of
                         None \<Rightarrow> sampled
                       | Some c \<Rightarrow>
                           take (nat pop_size0)
                             (c # (if pop_size0 - 1 > 0 then sampled else [])));
              m2c = nominal_dims sp @ ordinal_dims sp
          in (case collect (map (list_index m2c) [0 ..< length m2c]) of
                Inl e \<Rightarrow> Inl e
              | Inr m2o \<Rightarrow>
                  Inr \<lparr>ga_search_space = sp, pop_size = pop_size0,
                       num_parents = num_parents0, num_elite = ne,
                       store_observations = store,
                       allow_repeating_suggestions = allow_rep,
                       ga_tr_manager = tm, ga_tr_center = tc,
                       x_pop = [], y_pop = [], x_elite = None, y_elite = None,
                       x_queue = queue, map_to_canonical = m2c, map_to_original = m2o,
                       lb = nominal_lb sp @ ordinal_lb sp,
                       ub = nominal_ub sp @ ordinal_ub sp,
                       ga_buffer_x = [], ga_buffer_y = [],
                       ga_best_y = None, ga_best_x = None\<rparr>))"

section \<open>\<^verbatim>\<open>optimizers/multi_armed_bandit.py\<close>\<close>

text \<open>
  The fields that \<^verbatim>\<open>__init__\<close>, \<^verbatim>\<open>update_prob_dist\<close> and \<^verbatim>\<open>observe\<close> read and write.
  \<^verbatim>\<open>prob_dist\<close> is \<^verbatim>\<open>None\<close> until \<^verbatim>\<open>update_prob_dist\<close> has run. The fields that only
  \<^verbatim>\<open>method_suggest\<close> reads (the projected trust-region centre) are left out.
\<close>

record multi_armed_bandit =
  mab_search_space :: search_space
  batch_size :: int
  max_n_iter :: int
  resample_tol :: int
  noisy_black_box :: bool
  n_cats :: "int list"
  best_ube :: real
  gamma :: "real list"
  log_weights :: "real list list"
  prob_dist :: "real list list option"
  mab_tr_manager :: "tr_manager option"
  mab_buffer_x :: "sample list"
  mab_buffer_y :: "real list"
  mab_best_y :: "real option"
  mab_best_x :: "sample option"

text \<open>
  The exploration rate of one dimension. \<^verbatim>\<open>n_cats / batch_size\<close> divides two Python
  integers, which raises for a zero batch size; the other quotients are NumPy's.
\<close>

definition mab_gamma :: "int \<Rightarrow> real \<Rightarrow> int \<Rightarrow> py_error + real" where
  "mab_gamma bs ube nc =
     (if nc > bs then
        (if bs = 0 then Inl ZeroDivisionError
         else Inr (sqrt (of_int nc * ln (of_int nc / of_int bs)
                          / ((exp 1 - 1) * of_int bs * ube))))
      else Inr (sqrt (of_int nc * ln (of_int nc) / ((exp 1 - 1) * ube))))"

text \<open>\<^verbatim>\<open>np.zeros(C)\<close> refuses a negative length.\<close>

definition np_zeros :: "int \<Rightarrow> py_error + real list" where
  "np_zeros c = (if c < 0 then Inl ValueError else Inr (replicate (nat c) 0))"

definition mab_init ::
  "search_space \<Rightarrow> int \<Rightarrow> int \<Rightarrow> bool \<Rightarrow> int \<Rightarrow> tr_manager option
     \<Rightarrow> py_error + multi_armed_bandit" where
  "mab_init sp bs iters noisy tol tm =
     (if num_dims sp \<noteq> num_nominal sp + num_ordinal sp then Inl AssertionError
      else
        let cats = map (\<lambda>u. u + 1) (nominal_ub sp @ ordinal_ub sp);
            ube = 2 * of_int iters / 3
        in (case collect (map (mab_gamma bs ube) cats) of
              Inl e \<Rightarrow> Inl e
            | Inr gs \<Rightarrow>
               (case collect (map np_zeros cats) of
                  Inl e \<Rightarrow> Inl e
                | Inr lws \<Rightarrow>
                    if (case tm of None \<Rightarrow> False | Some t \<Rightarrow> radii t ''nominal'' = None)
                      then Inl AssertionError
                    else if (case tm of None \<Rightarrow> False | Some t \<Rightarrow> center t = None)
                      then Inl AssertionError
                    else
                      Inr \<lparr>mab_search_space = sp, batch_size = bs, max_n_iter = iters,
                           resample_tol = tol, noisy_black_box = noisy, n_cats = cats,
                           best_ube = ube, gamma = gs, log_weights = lws,
                           prob_dist = None, mab_tr_manager = tm,
                           mab_buffer_x = [], mab_buffer_y = [],
                           mab_best_y = None, mab_best_x = None\<rparr>)))"

subsection \<open>\<^verbatim>\<open>update_prob_dist\<close>\<close>

text \<open>Reading position \<open>i\<close> of a Python list with a non-negative index.\<close>

definition item :: "'a list \<Rightarrow> nat \<Rightarrow> py_error + 'a" where
  "item xs i = (if i < length xs then Inr (xs ! i) else Inl IndexError)"

definition prob_row :: "real list \<Rightarrow> real \<Rightarrow> real list" where
  "prob_row lw g =
     (let weights = map exp lw; norm = sum_list weights
      in map (\<lambda>w. (1 - g) * (w / norm) + g / real (length weights)) weights)"

definition prob_dim :: "multi_armed_bandit \<Rightarrow> nat \<Rightarrow> py_error + real list" where
  "prob_dim s j =
     (case item (log_weights s) j of
        Inl e \<Rightarrow> Inl e
      | Inr lw \<Rightarrow> (case item (gamma s) j of
                     Inl e \<Rightarrow> Inl e
                   | Inr g \<Rightarrow> Inr (prob_row lw g)))"

definition update_prob_dist :: "multi_armed_bandit \<Rightarrow> py_error + multi_armed_bandit" where
  "update_prob_dist s =
     (case collect (map (prob_dim s) [0 ..< length (n_cats s)]) of
        Inl e \<Rightarrow> Inl e
      | Inr pd \<Rightarrow> Inr (s\<lparr>prob_dist := Some pd\<rparr>))"

subsection \<open>\<^verbatim>\<open>observe\<close>\<close>

text \<open>
  Modelled from the spec: \<^verbatim>\<open>DataBuffer.append\<close> (\<^verbatim>\<open>comb_opt/utils/data_buffer.py\<close> is not
  among the modelled files). The spec has the buffer as an append-only store that exposes
  every observed x and y: the new rows go after the stored ones.
\<close>

definition data_buffer_append ::
  "sample list \<times> real list \<Rightarrow> sample list \<Rightarrow> real list \<Rightarrow> sample list \<times> real list" where
  "data_buffer_append buf x y = (fst buf @ x, snd buf @ y)"

text \<open>\<^verbatim>\<open>argmin\<close> of a non-empty column: the first position of the least value.\<close>

fun argmin :: "real list \<Rightarrow> nat" where
  "argmin [] = 0"
| "argmin [v] = 0"
| "argmin (v # w # ws) = (let k = argmin (w # ws) in if v \<le> (w # ws) ! k then 0 else Suc k)"

text \<open>\<^verbatim>\<open>max()\<close> and \<^verbatim>\<open>min()\<close> of a non-empty tensor.\<close>

fun tmax :: "real list \<Rightarrow> real" where
  "tmax [] = 0"
| "tmax (v # vs) = fold max vs v"

fun tmin :: "real list \<Rightarrow> real" where
  "tmin [] = 0"
| "tmin (v # vs) = fold min vs v"

text \<open>
  \<^verbatim>\<open>rewards = - self.data_buffer.y[indices]\<close>, where \<^verbatim>\<open>indices\<close> marks the buffered rows
  whose coordinate \<open>d\<close> equals that of the sample.
\<close>

definition matched_rewards :: "sample list \<Rightarrow> real list \<Rightarrow> sample \<Rightarrow> nat \<Rightarrow> real list" where
  "matched_rewards bx by smp d =
     map (\<lambda>p. - snd p) (filter (\<lambda>p. fst p ! d = smp ! d) (zip bx by))"

definition mab_reward :: "sample list \<Rightarrow> real list \<Rightarrow> sample \<Rightarrow> nat \<Rightarrow> real" where
  "mab_reward bx by smp d =
     (let rewards = matched_rewards bx by smp d in
      if length rewards = 0 then 0
      else if tmax by \<noteq> tmin by then
        2 * (tmax rewards - tmin (map uminus by))
          / (tmax (map uminus by) - tmin (map uminus by)) - 1
      else tmax rewards)"

text \<open>The matrix \<^verbatim>\<open>mab_rewards\<close>: one row per sample of the batch, one entry per dimension.\<close>

definition mab_rewards :: "sample list \<Rightarrow> real list \<Rightarrow> nat \<Rightarrow> sample list \<Rightarrow> real list list" where
  "mab_rewards bx by nd x = map (\<lambda>smp. map (mab_reward bx by smp) [0 ..< nd]) x"

text \<open>Indexing with a Python integer: a negative index counts from the end.\<close>

definition py_index :: "nat \<Rightarrow> int \<Rightarrow> py_error + nat" where
  "py_index n i =
     (let j = (if i < 0 then int n + i else i)
      in if 0 \<le> j \<and> j < int n then Inr (nat j) else Inl IndexError)"

definition clip :: "real \<Rightarrow> real \<Rightarrow> real \<Rightarrow> real" where
  "clip lo hi v = min hi (max lo v)"

text \<open>
  The inner loop of the weight update for one dimension: \<open>lw\<close> is \<^verbatim>\<open>log_weights\<close>,
  \<open>pd\<close> is \<^verbatim>\<open>prob_dist\<close>, \<open>g\<close> is \<^verbatim>\<open>gamma\<close>, \<open>nc\<close> is \<^verbatim>\<open>num_cats\<close> and \<open>b\<close> is
  \<^verbatim>\<open>len(mab_rewards)\<close>; the list pairs each \<^verbatim>\<open>ht\<close> with its \<^verbatim>\<open>reward[ii]\<close>.
\<close>

fun update_weights ::
  "real list \<Rightarrow> real list \<Rightarrow> real \<Rightarrow> int \<Rightarrow> nat \<Rightarrow> (int \<times> real) list \<Rightarrow> py_error + real list" where
  "update_weights lw pd g nc b [] = Inr lw"
| "update_weights lw pd g nc b ((ht, r) # rest) =
     (case py_index (length pd) ht of
        Inl e \<Rightarrow> Inl e
      | Inr k \<Rightarrow>
         (case py_index (length lw) ht of
            Inl e \<Rightarrow> Inl e
          | Inr c \<Rightarrow>
              let estimated_reward = 1 * r / pd ! k
              in update_weights
                   (lw[c := clip (- 30) 30 (lw ! c + real b * estimated_reward * g / of_int nc)])
                   pd g nc b rest))"

text \<open>The outer loop over the dimensions, from dimension \<open>d\<close> on.\<close>

fun update_dims ::
  "multi_armed_bandit \<Rightarrow> real list list \<Rightarrow> sample list \<Rightarrow> real list list \<Rightarrow> nat list
     \<Rightarrow> py_error + real list list" where
  "update_dims s pd x rw [] = Inr (log_weights s)"
| "update_dims s pd x rw (d # ds) =
     (case item (log_weights s) d of Inl e \<Rightarrow> Inl e | Inr lw \<Rightarrow>
      case item (n_cats s) d of Inl e \<Rightarrow> Inl e | Inr nc \<Rightarrow>
      case item (gamma s) d of Inl e \<Rightarrow> Inl e | Inr g \<Rightarrow>
      case item pd d of Inl e \<Rightarrow> Inl e | Inr p \<Rightarrow>
      case update_weights lw p g nc (length rw)
             (zip (map (\<lambda>smp. smp ! d) x) (map (\<lambda>row. row ! d) rw)) of
        Inl e \<Rightarrow> Inl e
      | Inr lw' \<Rightarrow> update_dims (s\<lparr>log_weights := (log_weights s)[d := lw']\<rparr>) pd x rw ds)"

text \<open>
  The rewards that \<^verbatim>\<open>observe\<close> computes for the batch \<open>(x, y)\<close>: the batch is in the
  buffer by then.
\<close>

definition observe_rewards :: "multi_armed_bandit \<Rightarrow> sample list \<Rightarrow> real list \<Rightarrow> real list list" where
  "observe_rewards s x y =
     (let buf = data_buffer_append (mab_buffer_x s, mab_buffer_y s) x y
      in mab_rewards (fst buf) (snd buf) (num_dims (mab_search_space s)) x)"

definition mab_observe ::
  "multi_armed_bandit \<Rightarrow> sample list \<Rightarrow> real list \<Rightarrow> py_error + multi_armed_bandit" where
  "mab_observe s x y =
     (if length x \<noteq> length y then Inl AssertionError
      else
        let buf = data_buffer_append (mab_buffer_x s, mab_buffer_y s) x y;
            s1 = s\<lparr>mab_buffer_x := fst buf, mab_buffer_y := snd buf\<rparr>
        in if y = [] then Inl IndexError
           else
             let batch_idx = argmin y;
                 y' = y ! batch_idx;
                 s2 = (if (case mab_best_y s1 of None \<Rightarrow> True | Some b \<Rightarrow> y' < b)
                       then s1\<lparr>mab_best_y := Some y', mab_best_x := Some (x ! batch_idx)\<rparr>
                       else s1);
                 rw = observe_rewards s x y
             in (case prob_dist s2 of
                   None \<Rightarrow>
                     if num_dims (mab_search_space s2) = 0 then Inr s2 else
                     (case item (log_weights s2) 0 of Inl e \<Rightarrow> Inl e | Inr lw \<Rightarrow>
                      case item (n_cats s2) 0 of Inl e \<Rightarrow> Inl e | Inr nc \<Rightarrow>
                      case item (gamma s2) 0 of Inl e \<Rightarrow> Inl e | Inr g \<Rightarrow> Inl TypeError)
                 | Some pd \<Rightarrow>
                    (case update_dims s2 pd x rw [0 ..< num_dims (mab_search_space s2)] of
                       Inl e \<Rightarrow> Inl e
                     | Inr lws \<Rightarrow> Inr (s2\<lparr>log_weights := lws\<rparr>))))"

section \<open>Random draws\<close>

text \<open>
  The optimizers draw from NumPy's global generator. A run of the model reads the draws
  from a tape of naturals, one per call: \<^verbatim>\<open>randint(low, high)\<close> is \<open>low\<close> plus the draw
  modulo the width of the range, \<^verbatim>\<open>choice(a)\<close> is the entry of \<open>a\<close> at the draw modulo
  its length, and \<^verbatim>\<open>random()\<close> is a 53-bit fraction. So every value the generator can
  return is the reading of some tape, and nothing is said about probabilities.
  A run is \<open>None\<close> when the tape (or the fuel of a \<^verbatim>\<open>while\<close> loop) is used up,
  \<open>Some (Inl e)\<close> when the source raises, and \<open>Some (Inr (v, t))\<close> when it returns
  \<open>v\<close> and leaves the tape \<open>t\<close>.
\<close>

type_synonym rng = "nat list"

type_synonym 'a run = "(py_error + 'a \<times> rng) option"

definition ret :: "'a \<Rightarrow> rng \<Rightarrow> 'a run" where
  "ret v t = Some (Inr (v, t))"

definition raise :: "py_error \<Rightarrow> 'a run" where
  "raise e = Some (Inl e)"

definition and_then :: "'a run \<Rightarrow> ('a \<Rightarrow> rng \<Rightarrow> 'b run) \<Rightarrow> 'b run" where
  "and_then m f =
     (case m of
        None \<Rightarrow> None
      | Some (Inl e) \<Rightarrow> Some (Inl e)
      | Some (Inr (v, t)) \<Rightarrow> f v t)"

definition randint :: "int \<Rightarrow> int \<Rightarrow> rng \<Rightarrow> int run" where
  "randint low high t =
     (if high \<le> low then raise ValueError
      else (case t of [] \<Rightarrow> None | r # t' \<Rightarrow> ret (low + int r mod (high - low)) t'))"

definition random_choice :: "'a list \<Rightarrow> rng \<Rightarrow> 'a run" where
  "random_choice a t =
     (if a = [] then raise ValueError
      else (case t of [] \<Rightarrow> None | r # t' \<Rightarrow> ret (a ! (r mod length a)) t'))"

definition random_unit :: "rng \<Rightarrow> real run" where
  "random_unit t = (case t of [] \<Rightarrow> None | r # t' \<Rightarrow> ret (real (r mod 2 ^ 53) / 2 ^ 53) t')"

text \<open>\<^verbatim>\<open>choice(a, size=k, replace=False)\<close>: \<open>k\<close> entries at distinct positions.\<close>

fun pick_distinct :: "nat \<Rightarrow> 'a list \<Rightarrow> rng \<Rightarrow> 'a list run" where
  "pick_distinct 0 a t = ret [] t"
| "pick_distinct (Suc k) a [] = None"
| "pick_distinct (Suc k) a (r # t) =
     (let i = r mod length a
      in and_then (pick_distinct k (take i a @ drop (Suc i) a) t)
           (\<lambda>rest t'. ret (a ! i # rest) t'))"

definition choice_no_replace :: "nat \<Rightarrow> 'a list \<Rightarrow> rng \<Rightarrow> 'a list run" where
  "choice_no_replace k a t = (if length a < k then raise ValueError else pick_distinct k a t)"

section \<open>\<^verbatim>\<open>optimizers/genetic_algorithm.py\<close>: crossover and mutation\<close>

text \<open>
  Modelled from the spec: \<^verbatim>\<open>hamming_distance\<close> with \<^verbatim>\<open>normalize=False\<close>
  (\<^verbatim>\<open>comb_opt/utils/distance_metrics.py\<close> is not among the modelled files). The spec's
  glossary has it as the count of coordinates differing between two samples.
\<close>

definition hamming_distance :: "sample \<Rightarrow> sample \<Rightarrow> nat" where
  "hamming_distance a b = length (filter (\<lambda>p. fst p \<noteq> snd p) (zip a b))"

text \<open>
  The projection of a child back into the trust region, as \<^verbatim>\<open>_crossover\<close> does it for
  \<^verbatim>\<open>x1_\<close> and for \<^verbatim>\<open>x2_\<close>: \<open>c\<close> is the centre, \<open>radius\<close> the value of
  \<^verbatim>\<open>get_nominal_radius()\<close>. A size that is not a whole number is refused by
  \<^verbatim>\<open>np.random.choice\<close>.
\<close>

definition project_to_tr :: "sample \<Rightarrow> real \<Rightarrow> sample \<Rightarrow> rng \<Rightarrow> sample run" where
  "project_to_tr c radius xr t =
     (let d = hamming_distance c xr in
      if real d > radius then
        (let size = real d - radius in
         if size \<noteq> of_int \<lfloor>size\<rfloor> then raise TypeError
         else and_then
                (choice_no_replace (nat \<lfloor>size\<rfloor>)
                   (filter (\<lambda>i. xr ! i \<noteq> c ! i) [0 ..< length xr]) t)
                (\<lambda>indices t'. ret (fold (\<lambda>i v. v[i := c ! i]) indices xr) t'))
      else ret xr t)"

definition crossover ::
  "genetic_algorithm \<Rightarrow> sample \<Rightarrow> sample \<Rightarrow> rng \<Rightarrow> (sample \<times> sample) run" where
  "crossover g x1 x2 t =
     (let sp = ga_search_space g in
      if num_ordinal sp + num_nominal sp \<noteq> num_dims sp then raise AssertionError
      else
        and_then (randint 1 (int (num_dims sp) - 1) t)
          (\<lambda>idx t1.
             let k = nat idx;
                 x1' = take k x2 @ drop k x1;
                 x2' = take k x1 @ drop k x2
             in (case ga_tr_manager g of
                   None \<Rightarrow> ret (x1', x2') t1
                 | Some tm \<Rightarrow>
                    (case ga_tr_center g of
                       None \<Rightarrow> raise AttributeError
                     | Some c \<Rightarrow>
                        (case get_nominal_radius tm of
                           Inl e \<Rightarrow> raise e
                         | Inr r \<Rightarrow>
                             and_then (project_to_tr c r x1' t1)
                               (\<lambda>p1 t2. and_then (project_to_tr c r x2' t2)
                                  (\<lambda>p2 t3. ret (p1, p2) t3)))))))"

text \<open>\<^verbatim>\<open>x[:, perm]\<close> on one row.\<close>

definition permute :: "'a list \<Rightarrow> nat list \<Rightarrow> py_error + 'a list" where
  "permute row perm = collect (map (item row) perm)"

text \<open>
  The candidate categories of \<^verbatim>\<open>_mutate\<close> for coordinate \<open>idx\<close>:
  \<^verbatim>\<open>[j for j in range(int(lb[idx]), int(ub[idx])) if j != x[i, idx]]\<close>. The range ends
  before \<^verbatim>\<open>ub[idx]\<close>, and the value left out is read from \<open>x\<close>, the batch before its
  columns were reordered (\<open>xrow\<close> is its row \<open>i\<close>). \<^verbatim>\<open>x[i, idx]\<close> is only read when the
  range is not empty.
\<close>

definition categories :: "int list \<Rightarrow> int list \<Rightarrow> sample \<Rightarrow> nat \<Rightarrow> py_error + int list" where
  "categories lbs ubs xrow idx =
     (case item lbs idx of Inl e \<Rightarrow> Inl e | Inr lo \<Rightarrow>
      case item ubs idx of Inl e \<Rightarrow> Inl e | Inr hi \<Rightarrow>
        if [lo .. hi - 1] = [] then Inr []
        else (case item xrow idx of
                Inl e \<Rightarrow> Inl e
              | Inr cur \<Rightarrow> Inr (filter (\<lambda>j. j \<noteq> cur) [lo .. hi - 1])))"

text \<open>
  One pass of the body that both branches of \<^verbatim>\<open>_mutate\<close> share: draw the coordinate,
  draw the category, write it into (a copy of) the reordered row \<open>x_row\<close>.
\<close>

definition mutate_once :: "genetic_algorithm \<Rightarrow> sample \<Rightarrow> sample \<Rightarrow> rng \<Rightarrow> sample run" where
  "mutate_once g xrow x_row t =
     and_then (randint 0 (int (num_dims (ga_search_space g))) t)
       (\<lambda>idx t1.
          case categories (lb g) (ub g) xrow (nat idx) of
            Inl e \<Rightarrow> raise e
          | Inr cats \<Rightarrow>
              and_then (random_choice cats t1)
                (\<lambda>v t2. if nat idx < length x_row then ret (x_row[nat idx := v]) t2
                         else raise IndexError))"

text \<open>
  The \<^verbatim>\<open>while not done\<close> loop of the trust-region branch for one row; \<open>n\<close> bounds the
  number of attempts. The candidate is kept when its distance to the centre is at most
  \<^verbatim>\<open>self.tr_manager.radii['nominal']\<close>.
\<close>

fun mutate_in_tr ::
  "nat \<Rightarrow> genetic_algorithm \<Rightarrow> tr_manager \<Rightarrow> sample \<Rightarrow> sample \<Rightarrow> rng \<Rightarrow> sample run" where
  "mutate_in_tr 0 g tm xrow x_row t = None"
| "mutate_in_tr (Suc n) g tm xrow x_row t =
     (case mutate_once g xrow x_row t of
        None \<Rightarrow> None
      | Some (Inl e) \<Rightarrow> Some (Inl e)
      | Some (Inr (cand, t')) \<Rightarrow>
         (case ga_tr_center g of
            None \<Rightarrow> raise AttributeError
          | Some c \<Rightarrow>
             (case radii tm ''nominal'' of
                None \<Rightarrow> raise KeyError
              | Some r \<Rightarrow>
                  if real (hamming_distance c cand) \<le> r then ret cand t'
                  else mutate_in_tr n g tm xrow x_row t')))"

text \<open>The loop over the rows: each pair is a row of \<open>x\<close> and the reordered row of \<open>x_\<close>.\<close>

fun mutate_rows ::
  "nat \<Rightarrow> genetic_algorithm \<Rightarrow> (sample \<times> sample) list \<Rightarrow> rng \<Rightarrow> sample list run" where
  "mutate_rows n g [] t = ret [] t"
| "mutate_rows n g ((xrow, x_row) # rest) t =
     (case (case ga_tr_manager g of
              None \<Rightarrow> mutate_once g xrow x_row t
            | Some tm \<Rightarrow> mutate_in_tr n g tm xrow x_row t) of
        None \<Rightarrow> None
      | Some (Inl e) \<Rightarrow> Some (Inl e)
      | Some (Inr (row, t')) \<Rightarrow>
         (case mutate_rows n g rest t' of
            None \<Rightarrow> None
          | Some (Inl e) \<Rightarrow> Some (Inl e)
          | Some (Inr (rows, t'')) \<Rightarrow> ret (row # rows) t''))"

definition mutate :: "nat \<Rightarrow> genetic_algorithm \<Rightarrow> sample list \<Rightarrow> rng \<Rightarrow> sample list run" where
  "mutate n g x t =
     (let sp = ga_search_space g in
      if num_ordinal sp + num_nominal sp \<noteq> num_dims sp then raise AssertionError
      else
        (case collect (map (\<lambda>row. permute row (map_to_canonical g)) x) of
           Inl e \<Rightarrow> raise e
         | Inr x_ \<Rightarrow>
             and_then (mutate_rows n g (zip x x_) t)
               (\<lambda>rows t'.
                  case collect (map (\<lambda>row. permute row (map_to_original g)) rows) of
                    Inl e \<Rightarrow> raise e
                  | Inr out \<Rightarrow> ret out t')))"

section \<open>\<^verbatim>\<open>optimizers/genetic_algorithm.py\<close>: observations and the population step\<close>

text \<open>
  \<^verbatim>\<open>observe\<close>: the batch goes to the data buffer (when observations are stored or
  repetitions are not allowed) and to the live population; the best value is replaced on
  strict improvement.
\<close>

definition ga_observe ::
  "genetic_algorithm \<Rightarrow> sample list \<Rightarrow> real list \<Rightarrow> py_error + genetic_algorithm" where
  "ga_observe g x y =
     (if length x \<noteq> length y then Inl AssertionError
      else
        let buf = (if store_observations g \<or> \<not> allow_repeating_suggestions g
                   then data_buffer_append (ga_buffer_x g, ga_buffer_y g) x y
                   else (ga_buffer_x g, ga_buffer_y g));
            g1 = g\<lparr>ga_buffer_x := fst buf, ga_buffer_y := snd buf,
                   x_pop := x_pop g @ x, y_pop := y_pop g @ y\<rparr>
        in if y = [] then Inl IndexError
           else
             let idx = argmin y; y' = y ! idx
             in if (case ga_best_y g1 of None \<Rightarrow> True | Some b \<Rightarrow> y' < b)
                then Inr (g1\<lparr>ga_best_y := Some y', ga_best_x := Some (x ! idx)\<rparr>)
                else Inr g1)"

text \<open>The Python slice \<^verbatim>\<open>xs[:n]\<close>; a negative \<open>n\<close> counts from the end.\<close>

definition slice_to :: "int \<Rightarrow> 'a list \<Rightarrow> 'a list" where
  "slice_to n xs = (if 0 \<le> n then take (nat n) xs else take (length xs - nat (- n)) xs)"

fun cumsum_from :: "real \<Rightarrow> real list \<Rightarrow> real list" where
  "cumsum_from a [] = []"
| "cumsum_from a (v # vs) = (a + v) # cumsum_from (a + v) vs"

text \<open>
  The population sorted by objective value, as pairs of a sample and its value. The
  source sorts with \<^verbatim>\<open>argsort\<close>, which leaves the order of equal values open; the model
  keeps their order. \<open>x_pop\<close> and \<open>y_pop\<close> grow together in \<^verbatim>\<open>observe\<close>, so they have
  the same length.
\<close>

definition sort_population :: "sample list \<Rightarrow> real list \<Rightarrow> (sample \<times> real) list" where
  "sort_population xs ys = sort_key snd (zip xs ys)"

text \<open>
  The cumulative selection probabilities \<^verbatim>\<open>cum_prob\<close> from the sorted values (which
  are not empty where this is used).
\<close>

definition selection_cdf :: "real list \<Rightarrow> real list" where
  "selection_cdf y_sorted =
     (let min_y = hd y_sorted;
          norm_y = (if min_y < 0 then map (\<lambda>v. v + \<bar>min_y\<bar>) y_sorted else y_sorted);
          max_y = tmax norm_y;
          norm_y' = map (\<lambda>v. max_y - v + 1) norm_y;
          sum_norm_y = sum_list norm_y'
      in cumsum_from 0 (map (\<lambda>v. v / sum_norm_y) norm_y'))"

text \<open>
  The elite step: the first generation takes the top \<^verbatim>\<open>num_elite\<close> of the sorted
  population; later generations merge them with the stored elite, sort again and keep
  the first \<^verbatim>\<open>num_elite\<close>.
\<close>

definition update_elite ::
  "genetic_algorithm \<Rightarrow> sample list \<Rightarrow> real list \<Rightarrow> py_error + genetic_algorithm" where
  "update_elite g x_sorted y_sorted =
     (case x_elite g of
        None \<Rightarrow>
          (case y_elite g of
             None \<Rightarrow> Inr (g\<lparr>x_elite := Some (slice_to (num_elite g) x_sorted),
                              y_elite := Some (slice_to (num_elite g) y_sorted)\<rparr>)
           | Some ye \<Rightarrow> Inl AttributeError)
      | Some xe \<Rightarrow>
          (case y_elite g of
             None \<Rightarrow> Inl AttributeError
           | Some ye \<Rightarrow>
               let merged = sort_population (xe @ slice_to (num_elite g) x_sorted)
                              (ye @ slice_to (num_elite g) y_sorted);
                   kept = slice_to (num_elite g) merged
               in Inr (g\<lparr>x_elite := Some (map fst kept), y_elite := Some (map snd kept)\<rparr>)))"

text \<open>
  \<^verbatim>\<open>parents[:self.num_elite] = self.x_elite\<close> on the fresh tensor of \<open>p\<close> rows. A row
  that has not been written (it holds \<^verbatim>\<open>nan\<close>) is \<open>None\<close>. The assignment needs as many
  elite rows as the slice has, or a single one, which is repeated.
\<close>

definition assign_elite :: "int \<Rightarrow> sample list \<Rightarrow> nat \<Rightarrow> py_error + sample option list" where
  "assign_elite ne xe p =
     (let cnt = length (slice_to ne (replicate p ()))
      in if length xe = cnt then Inr (map Some xe @ replicate (p - cnt) None)
         else if length xe = 1 then Inr (replicate cnt (Some (hd xe)) @ replicate (p - cnt) None)
         else Inl RuntimeError)"

text \<open>
  The roulette wheel: for each \<open>k\<close> of \<^verbatim>\<open>range(num_elite, num_parents)\<close>, the row of the
  sorted population at \<^verbatim>\<open>searchsorted(cum_prob, random())\<close> becomes parent \<open>k\<close>.
\<close>

fun select_parents ::
  "real list \<Rightarrow> sample list \<Rightarrow> int list \<Rightarrow> sample option list \<Rightarrow> rng
     \<Rightarrow> sample option list run" where
  "select_parents cum_prob x_sorted [] parents t = ret parents t"
| "select_parents cum_prob x_sorted (k # ks) parents t =
     (case random_unit t of
        None \<Rightarrow> None
      | Some (Inl e) \<Rightarrow> Some (Inl e)
      | Some (Inr (u, t')) \<Rightarrow>
         (case item x_sorted (length (filter (\<lambda>c. c < u) cum_prob)) of
            Inl e \<Rightarrow> raise e
          | Inr row \<Rightarrow>
             (case py_index (length parents) k of
                Inl e \<Rightarrow> raise e
              | Inr i \<Rightarrow> select_parents cum_prob x_sorted ks (parents[i := Some row]) t')))"

text \<open>Two parents drawn from the pool, and their crossover.\<close>

definition draw_children ::
  "genetic_algorithm \<Rightarrow> sample list \<Rightarrow> rng \<Rightarrow> (sample \<times> sample) run" where
  "draw_children g parents t =
     and_then (randint 0 (num_parents g) t)
       (\<lambda>r1 t1. and_then (randint 0 (num_parents g) t1)
          (\<lambda>r2 t2.
             case item parents (nat r1) of Inl e \<Rightarrow> raise e | Inr pvar1 \<Rightarrow>
             case item parents (nat r2) of Inl e \<Rightarrow> raise e | Inr pvar2 \<Rightarrow>
               crossover g pvar1 pvar2 t2))"

text \<open>
  The test both children share: with \<^verbatim>\<open>allow_repeating_suggestions\<close> off the child must
  not be a row of the data buffer (\<open>obs\<close>), with it on not a row of the elite (\<open>xe\<close>).
\<close>

definition is_new :: "genetic_algorithm \<Rightarrow> sample list \<Rightarrow> sample list \<Rightarrow> sample \<Rightarrow> bool" where
  "is_new g obs xe c =
     (if \<not> allow_repeating_suggestions g then c \<notin> set obs else c \<notin> set xe)"

text \<open>
  The loop \<^verbatim>\<open># Mutate child 1\<close>; \<open>n\<close> bounds its passes. \<^verbatim>\<open>_mutate\<close> gets the batch of
  the one row \<open>ch1\<close> and returns a batch of one row, \<open>c1\<close>. The child is tested against
  the population under construction first; the counter only moves when that test passes.
  The result is the accepted \<^verbatim>\<open>_ch1\<close> and the current \<^verbatim>\<open>ch2\<close>.
\<close>

fun mutate_child1 ::
  "nat \<Rightarrow> genetic_algorithm \<Rightarrow> sample list \<Rightarrow> sample option list \<Rightarrow> sample list \<Rightarrow> sample list
     \<Rightarrow> sample \<Rightarrow> sample \<Rightarrow> int \<Rightarrow> rng \<Rightarrow> (sample \<times> sample) run" where
  "mutate_child1 0 g parents pop obs xe ch1 ch2 counter t = None"
| "mutate_child1 (Suc n) g parents pop obs xe ch1 ch2 counter t =
     (case mutate n g [ch1] t of
        None \<Rightarrow> None
      | Some (Inl e) \<Rightarrow> Some (Inl e)
      | Some (Inr (batch, t1)) \<Rightarrow>
         (let c1 = hd batch in
          if Some c1 \<notin> set pop then
            (if is_new g obs xe c1 then ret (c1, ch2) t1
             else if counter + 1 = 100 then
               (case draw_children g parents t1 of
                  None \<Rightarrow> None
                | Some (Inl e) \<Rightarrow> Some (Inl e)
                | Some (Inr (chs, t2)) \<Rightarrow>
                    mutate_child1 n g parents pop obs xe (fst chs) (snd chs) 0 t2)
             else mutate_child1 n g parents pop obs xe ch1 ch2 (counter + 1) t1)
          else mutate_child1 n g parents pop obs xe ch1 ch2 counter t1))"

text \<open>
  The loop \<^verbatim>\<open># Mutate child 2\<close>. It has no test against the population under
  construction.
\<close>

fun mutate_child2 ::
  "nat \<Rightarrow> genetic_algorithm \<Rightarrow> sample list \<Rightarrow> sample list \<Rightarrow> sample list
     \<Rightarrow> sample \<Rightarrow> int \<Rightarrow> rng \<Rightarrow> sample run" where
  "mutate_child2 0 g parents obs xe ch2 counter t = None"
| "mutate_child2 (Suc n) g parents obs xe ch2 counter t =
     (case mutate n g [ch2] t of
        None \<Rightarrow> None
      | Some (Inl e) \<Rightarrow> Some (Inl e)
      | Some (Inr (batch, t1)) \<Rightarrow>
         (let c2 = hd batch in
          if is_new g obs xe c2 then ret c2 t1
          else if counter + 1 = 100 then
            (case draw_children g parents t1 of
               None \<Rightarrow> None
             | Some (Inl e) \<Rightarrow> Some (Inl e)
             | Some (Inr (chs, t2)) \<Rightarrow> mutate_child2 n g parents obs xe (snd chs) 0 t2)
          else mutate_child2 n g parents obs xe ch2 (counter + 1) t1))"

text \<open>
  The loop \<^verbatim>\<open>for k in range(0, self.pop_size, 2)\<close>. \<open>pop\<close> is the new population; a row
  not yet written is \<open>None\<close>. \<open>n\<close> is the bound handed to the two loops above.
\<close>

fun fill_pop ::
  "nat \<Rightarrow> genetic_algorithm \<Rightarrow> sample list \<Rightarrow> sample list \<Rightarrow> sample list \<Rightarrow> nat list
     \<Rightarrow> sample option list \<Rightarrow> rng \<Rightarrow> sample option list run" where
  "fill_pop n g parents obs xe [] pop t = ret pop t"
| "fill_pop n g parents obs xe (k # ks) pop t =
     (case draw_children g parents t of
        None \<Rightarrow> None
      | Some (Inl e) \<Rightarrow> Some (Inl e)
      | Some (Inr (chs, t1)) \<Rightarrow>
         (case mutate_child1 n g parents pop obs xe (fst chs) (snd chs) 0 t1 of
            None \<Rightarrow> None
          | Some (Inl e) \<Rightarrow> Some (Inl e)
          | Some (Inr (r1, t2)) \<Rightarrow>
             (case mutate_child2 n g parents obs xe (snd r1) 0 t2 of
                None \<Rightarrow> None
              | Some (Inl e) \<Rightarrow> Some (Inl e)
              | Some (Inr (c2, t3)) \<Rightarrow>
                  if Suc k < length pop
                  then fill_pop n g parents obs xe ks (pop[k := Some (fst r1), Suc k := Some c2]) t3
                  else raise IndexError)))"

text \<open>
  \<^verbatim>\<open>_generate_new_population\<close>. The rows of \<open>parents\<close> and of \<open>pop\<close> are all written
  when they are read as a whole (every index of the tensor is covered by the loops
  before), so \<open>those\<close> finds no \<open>None\<close> there. The new queue holds the encoded rows: the
  search space's \<^verbatim>\<open>inverse_transform\<close> and \<^verbatim>\<open>transform\<close> are inverse to each other and
  lie outside the modelled files.
\<close>

definition generate_new_population ::
  "nat \<Rightarrow> genetic_algorithm \<Rightarrow> rng \<Rightarrow> genetic_algorithm run" where
  "generate_new_population n g t =
     (let sorted = sort_population (x_pop g) (y_pop g);
          x_sorted = map fst sorted;
          y_sorted = map snd sorted
      in if y_sorted = [] then raise IndexError
         else
           let cum_prob = selection_cdf y_sorted
           in (case update_elite g x_sorted y_sorted of
                 Inl e \<Rightarrow> raise e
               | Inr g1 \<Rightarrow>
                  (case x_elite g1 of
                     None \<Rightarrow> raise AttributeError
                   | Some xe \<Rightarrow>
                      if num_parents g1 < 0 then raise RuntimeError
                      else
                        (case assign_elite (num_elite g1) xe (nat (num_parents g1)) of
                           Inl e \<Rightarrow> raise e
                         | Inr parents0 \<Rightarrow>
                            and_then
                              (select_parents cum_prob x_sorted
                                 [num_elite g1 .. num_parents g1 - 1] parents0 t)
                              (\<lambda>parents t1.
                                 case those parents of
                                   None \<Rightarrow> raise RuntimeError
                                 | Some ps \<Rightarrow>
                                    if pop_size g1 < 0 then raise RuntimeError
                                    else
                                      and_then
                                        (fill_pop n g1 ps (ga_buffer_x g1) xe
                                           (map (\<lambda>i. 2 * i) [0 ..< (nat (pop_size g1) + 1) div 2])
                                           (replicate (nat (pop_size g1)) None) t1)
                                        (\<lambda>pop t2.
                                           case those pop of
                                             None \<Rightarrow> raise RuntimeError
                                           | Some rows \<Rightarrow>
                                               ret (g1\<lparr>x_queue := rows, x_pop := [],
                                                        y_pop := []\<rparr>) t2))))))"

section \<open>Example inputs\<close>

text \<open>
  Small search spaces and the optimizers built on them, used where a result is shown at
  a concrete input. \<open>projr\<close> reads the value of a call that succeeded; each use comes
  with the fact that the call did return a value.
\<close>

definition space_1d :: search_space where
  "space_1d = \<lparr>num_dims = 1, num_nominal = 1, num_ordinal = 0, nominal_dims = [0],
     ordinal_dims = [], nominal_lb = [0], ordinal_lb = [], nominal_ub = [1], ordinal_ub = []\<rparr>"

definition space_10 :: search_space where
  "space_10 = \<lparr>num_dims = 1, num_nominal = 1, num_ordinal = 0, nominal_dims = [0],
     ordinal_dims = [], nominal_lb = [0], ordinal_lb = [], nominal_ub = [9], ordinal_ub = []\<rparr>"

definition gamma_2 :: real where
  "gamma_2 = projr (mab_gamma 1 (400 / 3) 2)"

definition gamma_10 :: real where
  "gamma_10 = projr (mab_gamma 1 (2 / 3) 10)"

definition bandit_2_new :: multi_armed_bandit where
  "bandit_2_new = projr (mab_init space_1d 1 200 False 500 None)"

definition bandit_2 :: multi_armed_bandit where
  "bandit_2 = projr (update_prob_dist bandit_2_new)"

definition bandit_10_new :: multi_armed_bandit where
  "bandit_10_new = projr (mab_init space_10 1 1 False 500 None)"

definition bandit_10 :: multi_armed_bandit where
  "bandit_10 = projr (update_prob_dist bandit_10_new)"

definition space_3d :: search_space where
  "space_3d = \<lparr>num_dims = 3, num_nominal = 3, num_ordinal = 0, nominal_dims = [0, 1, 2],
     ordinal_dims = [], nominal_lb = [0, 0, 0], ordinal_lb = [],
     nominal_ub = [2, 2, 2], ordinal_ub = []\<rparr>"


definition tr_nominal_2 :: tr_manager where
  "tr_nominal_2 = projr (register_radius (tr_manager_init space_3d) ''nominal'' 1 3 2)"

definition ga_odd_elite :: genetic_algorithm where
  "ga_odd_elite =
     projr (ga_init space_3d 4 4 3 True False None [[0, 0, 0], [1, 1, 1], [2, 2, 2], [0, 1, 2]])"

definition space_binary :: search_space where
  "space_binary = \<lparr>num_dims = 3, num_nominal = 3, num_ordinal = 0, nominal_dims = [0, 1, 2],
     ordinal_dims = [], nominal_lb = [0, 0, 0], ordinal_lb = [],
     nominal_ub = [1, 1, 1], ordinal_ub = []\<rparr>"

definition space_mixed :: search_space where
  "space_mixed = \<lparr>num_dims = 3, num_nominal = 1, num_ordinal = 2, nominal_dims = [0],
     ordinal_dims = [1, 2], nominal_lb = [0], ordinal_lb = [0, 0],
     nominal_ub = [3], ordinal_ub = [3, 3]\<rparr>"

definition ga_binary :: genetic_algorithm where
  "ga_binary = projr (ga_init space_binary 2 2 2 True False None [[0, 0, 0], [1, 1, 1]])"

definition ga_plain_new :: genetic_algorithm where
  "ga_plain_new =
     projr (ga_init space_3d 4 2 2 True False None [[0, 0, 0], [1, 1, 1], [0, 1, 1], [1, 0, 0]])"

definition ga_plain :: genetic_algorithm where
  "ga_plain = projr (ga_observe ga_plain_new [[0, 0, 0], [1, 1, 1], [0, 1, 1], [1, 0, 0]] [1, 2, 3, 4])"

definition tr_mixed_radius :: tr_manager where
  "tr_mixed_radius = projr (register_radius (tr_manager_init space_mixed) ''nominal'' 1 3 2)"

definition tr_mixed :: tr_manager where
  "tr_mixed = projr (set_center tr_mixed_radius (Some [0, 0, 0]))"

definition ga_mixed_new :: genetic_algorithm where
  "ga_mixed_new = projr (ga_init space_mixed 2 2 2 True False (Some tr_mixed) [[1, 0, 0]])"

definition ga_mixed :: genetic_algorithm where
  "ga_mixed = projr (ga_observe ga_mixed_new [[0, 0, 0], [1, 0, 0]] [1, 2])"






section \<open>Results: rewards of the bandit\<close>

lemma zip_append_same:
  "length bx = length by \<Longrightarrow> zip (bx @ x) (by @ y) = zip bx by @ zip x y"
  by simp




lemma tmax_Max: "xs \<noteq> [] \<Longrightarrow> tmax xs = Max (set xs)"
proof (cases xs)
  case (Cons a list)
  then show ?thesis using Max.set_eq_fold [of a list] by simp
qed simp

lemma tmin_Min: "xs \<noteq> [] \<Longrightarrow> tmin xs = Min (set xs)"
proof (cases xs)
  case (Cons a list)
  then show ?thesis using Min.set_eq_fold [of a list] by simp
qed simp

lemma tmax_const: "xs \<noteq> [] \<Longrightarrow> \<forall>v\<in>set xs. v = c \<Longrightarrow> tmax xs = c"
proof -
  assume a: "xs \<noteq> []" "\<forall>v\<in>set xs. v = c"
  then have "set xs = {c}" by (cases xs) auto
  then show ?thesis using a by (simp add: tmax_Max)
qed

lemma tmin_const: "xs \<noteq> [] \<Longrightarrow> \<forall>v\<in>set xs. v = c \<Longrightarrow> tmin xs = c"
proof -
  assume a: "xs \<noteq> []" "\<forall>v\<in>set xs. v = c"
  then have "set xs = {c}" by (cases xs) auto
  then show ?thesis using a by (simp add: tmin_Min)
qed

lemma matched_rewards_values:
  "r \<in> set (matched_rewards bx by smp d) \<Longrightarrow> \<exists>v\<in>set by. r = - v"
  unfolding matched_rewards_def by (auto dest: set_zip_rightD)

text \<open>
  C1, as amended. When no buffered row shares the sample's category the reward is 0. When
  every buffered objective value is the same \<open>c\<close> and a row matches, the reward is the
  largest matched \<^verbatim>\<open>-y\<close>, not rescaled: that is \<open>- c\<close>, which is 0 only for \<open>c = 0\<close>.
\<close>

theorem mab_reward_fallbacks:
  "(matched_rewards bx by smp d = [] \<longrightarrow> mab_reward bx by smp d = 0) \<and>
   (matched_rewards bx by smp d \<noteq> [] \<and> (\<forall>v\<in>set by. v = c)
      \<longrightarrow> mab_reward bx by smp d = - c)"
proof (intro conjI impI)
  assume "matched_rewards bx by smp d = []"
  then show "mab_reward bx by smp d = 0" by (simp add: mab_reward_def)
next
  assume a: "matched_rewards bx by smp d \<noteq> [] \<and> (\<forall>v\<in>set by. v = c)"
  then obtain r where "r \<in> set (matched_rewards bx by smp d)"
    by (cases "matched_rewards bx by smp d") auto
  then have ne: "by \<noteq> []" using matched_rewards_values by fastforce
  have "\<forall>r\<in>set (matched_rewards bx by smp d). r = - c"
    using a matched_rewards_values by fastforce
  then have m: "tmax (matched_rewards bx by smp d) = - c"
    using a tmax_const by blast
  have "tmax by = c" "tmin by = c"
    using a ne tmax_const tmin_const by blast+
  then show "mab_reward bx by smp d = - c"
    using a m by (simp add: mab_reward_def Let_def)
qed

text \<open>
  Both cases at concrete buffers: an empty buffer, and a buffer with the one
  observation \<open>([0], 5)\<close>.
\<close>

theorem mab_reward_fallbacks_witness:
  "matched_rewards [] [] [0] 0 = [] \<and> mab_reward [] [] [0] 0 = 0 \<and>
   matched_rewards [[0]] [5] [0] 0 \<noteq> [] \<and> set [5::real] = {5} \<and>
   mab_reward [[0]] [5] [0] 0 = - 5"
  using mab_reward_fallbacks [of "[]" "[]" "[0]" 0 0]
    mab_reward_fallbacks [of "[[0]]" "[5]" "[0]" 0 5]
  by (simp add: matched_rewards_def)

text \<open>
  C1 as stated fails: the first observation \<open>([0], 5)\<close> of a fresh bandit leaves one
  objective value in the buffer (a degenerate range), and the reward is \<open>- 5\<close>.
\<close>

theorem observe_degenerate_reward_nonzero:
  "map_sum id (\<lambda>s. observe_rewards s [[0]] [5]) (mab_init space_1d 1 200 False 500 None)
     = Inr [[- 5]]"
  by (simp add: mab_init_def space_1d_def mab_gamma_def np_zeros_def Let_def
      observe_rewards_def data_buffer_append_def mab_rewards_def mab_reward_def
      matched_rewards_def)

section \<open>Results: the probability distribution of the bandit\<close>

lemma collect_Inr:
  "collect rs = Inr vs \<Longrightarrow> length vs = length rs \<and> (\<forall>i<length rs. rs ! i = Inr (vs ! i))"
proof (induction rs arbitrary: vs)
  case Nil
  then show ?case by simp
next
  case (Cons r rs)
  then obtain v vs' where r: "r = Inr v" and c: "collect rs = Inr vs'" and vs: "vs = v # vs'"
    by (auto split: sum.splits)
  from Cons.IH [OF c] show ?case
    by (auto simp: r vs nth_Cons')
qed

lemma sum_list_exp_nonneg: "0 \<le> sum_list (map exp (lw :: real list))"
  by (rule sum_list_nonneg) auto

lemma sum_list_exp_pos: "lw \<noteq> [] \<Longrightarrow> 0 < sum_list (map exp (lw :: real list))"
proof (cases lw)
  case (Cons a as)
  have "0 < exp a" by simp
  then show ?thesis
    using sum_list_exp_nonneg [of as] by (simp add: Cons add_pos_nonneg)
qed simp

lemma prob_row_sum:
  assumes "lw \<noteq> []"
  shows "sum_list (prob_row lw g) = 1"
proof -
  let ?ws = "map exp lw"
  let ?n = "sum_list ?ws"
  have pos: "0 < ?n" using assms by (rule sum_list_exp_pos)
  have len: "real (length lw) \<noteq> 0" using assms by simp
  have "sum_list (prob_row lw g)
        = (\<Sum>w\<leftarrow>?ws. (1 - g) * (w / ?n)) + (\<Sum>w\<leftarrow>?ws. g / real (length lw))"
    by (simp add: prob_row_def Let_def sum_list_addf o_def)
  also have "(\<Sum>w\<leftarrow>?ws. (1 - g) * (w / ?n)) = (\<Sum>w\<leftarrow>?ws. ((1 - g) / ?n) * w)"
    by simp
  also have "\<dots> = (1 - g) * ((\<Sum>w\<leftarrow>?ws. w) / ?n)"
    unfolding sum_list_const_mult by simp
  also have "(\<Sum>w\<leftarrow>?ws. w) / ?n = 1" using pos by simp
  also have "(\<Sum>w\<leftarrow>?ws. g / real (length lw)) = g"
    using len by (simp add: sum_list_triv o_def)
  finally show ?thesis by simp
qed

lemma prob_row_floor:
  assumes "lw \<noteq> []" and "g \<le> 1" and "p \<in> set (prob_row lw g)"
  shows "g / real (length lw) \<le> p"
proof -
  have pos: "0 < sum_list (map exp lw)" using assms(1) by (rule sum_list_exp_pos)
  obtain v where "p = (1 - g) * (exp v / sum_list (map exp lw)) + g / real (length lw)"
    using assms(3) by (auto simp: prob_row_def Let_def)
  moreover have "0 \<le> (1 - g) * (exp v / sum_list (map exp lw))"
    using assms(2) pos by (intro mult_nonneg_nonneg divide_nonneg_nonneg) auto
  ultimately show ?thesis by simp
qed

lemma update_prob_dist_row:
  assumes "update_prob_dist s = Inr s'" and "j < length (n_cats s)"
  shows "\<exists>pd. prob_dist s' = Some pd \<and> j < length pd \<and> j < length (log_weights s) \<and>
           j < length (gamma s) \<and> pd ! j = prob_row (log_weights s ! j) (gamma s ! j)"
proof -
  obtain pd where c: "collect (map (prob_dim s) [0 ..< length (n_cats s)]) = Inr pd"
    and s': "s' = s\<lparr>prob_dist := Some pd\<rparr>"
    using assms(1) by (auto simp: update_prob_dist_def split: sum.splits)
  from collect_Inr [OF c] assms(2)
  have l: "length pd = length (n_cats s)" and "prob_dim s j = Inr (pd ! j)"
    by auto
  then show ?thesis
    using assms(2) s'
    by (auto simp: prob_dim_def item_def split: sum.splits if_splits)
qed

text \<open>
  C5, as amended. After \<^verbatim>\<open>update_prob_dist\<close>, for every dimension with at least one
  category whose weight vector has \<^verbatim>\<open>n_cats[j]\<close> entries, the probabilities sum to 1;
  and every entry is at least \<^verbatim>\<open>gamma[j] / n_cats[j]\<close> when \<^verbatim>\<open>gamma[j]\<close> is at
  most 1.
\<close>

theorem update_prob_dist_simplex:
  assumes "update_prob_dist s = Inr s'" and "j < length (n_cats s)"
    and "0 < n_cats s ! j" and "int (length (log_weights s ! j)) = n_cats s ! j"
  shows "\<exists>pd. prob_dist s' = Some pd \<and> sum_list (pd ! j) = 1 \<and>
           (gamma s ! j \<le> 1 \<longrightarrow> (\<forall>p\<in>set (pd ! j). gamma s ! j / of_int (n_cats s ! j) \<le> p))"
proof -
  from update_prob_dist_row [OF assms(1,2)] obtain pd where
    pd: "prob_dist s' = Some pd" "pd ! j = prob_row (log_weights s ! j) (gamma s ! j)"
    by blast
  have ne: "log_weights s ! j \<noteq> []" using assms(3,4) by auto
  have n: "(of_int (n_cats s ! j) :: real) = real (length (log_weights s ! j))"
    using assms(4) by (metis of_int_of_nat_eq)
  show ?thesis
    using pd prob_row_sum [OF ne] prob_row_floor [OF ne] by (auto simp: n)
qed

section \<open>Results: the weight update of the bandit\<close>

lemma py_index_less: "py_index n i = Inr c \<Longrightarrow> c < n"
  by (auto simp: py_index_def Let_def split: if_splits)

lemma update_weights_length:
  "update_weights lw pd g nc b ps = Inr lw' \<Longrightarrow> length lw' = length lw"
proof (induction ps arbitrary: lw)
  case Nil
  then show ?case by simp
next
  case (Cons p ps)
  obtain ht r where p: "p = (ht, r)" by (cases p)
  from Cons.prems obtain c where
    "update_weights (lw[c := clip (- 30) 30 (lw ! c + real b * (1 * r / pd ! (projr (py_index (length pd) ht))) * g / of_int nc)]) pd g nc b ps = Inr lw'"
    by (auto simp: p Let_def split: sum.splits)
  from Cons.IH [OF this] show ?case by simp
qed

lemma update_weights_untouched:
  "update_weights lw pd g nc b ps = Inr lw' \<Longrightarrow>
   \<forall>i<length ps. py_index (length lw) (fst (ps ! i)) \<noteq> Inr c \<Longrightarrow> lw' ! c = lw ! c"
proof (induction ps arbitrary: lw)
  case Nil
  then show ?case by simp
next
  case (Cons p ps)
  obtain ht r where p: "p = (ht, r)" by (cases p)
  from Cons.prems(1) obtain k c0 where
    c0: "py_index (length lw) ht = Inr c0"
    and rest: "update_weights (lw[c0 := clip (- 30) 30 (lw ! c0 + real b * (1 * r / pd ! k) * g / of_int nc)]) pd g nc b ps = Inr lw'"
    by (auto simp: p Let_def split: sum.splits)
  from Cons.prems(2) have "py_index (length lw) ht \<noteq> Inr c"
    by (auto simp: p)
  then have ne: "c0 \<noteq> c" using c0 by auto
  from Cons.prems(2) have "\<forall>i<length ps. py_index (length lw) (fst (ps ! i)) \<noteq> Inr c"
    by auto
  then have "lw' ! c = (lw[c0 := clip (- 30) 30 (lw ! c0 + real b * (1 * r / pd ! k) * g / of_int nc)]) ! c"
    using Cons.IH [OF rest] by simp
  then show ?case using ne by simp
qed

lemma clip_range: "- 30 \<le> clip (- 30) 30 v \<and> clip (- 30) 30 v \<le> 30"
  by (simp add: clip_def)

lemma update_weights_range:
  "update_weights lw pd g nc b ps = Inr lw' \<Longrightarrow> i < length ps \<Longrightarrow>
   py_index (length lw) (fst (ps ! i)) = Inr c \<Longrightarrow> - 30 \<le> lw' ! c \<and> lw' ! c \<le> 30"
proof (induction ps arbitrary: lw i)
  case Nil
  then show ?case by simp
next
  case (Cons p ps)
  obtain ht r where p: "p = (ht, r)" by (cases p)
  from Cons.prems(1) obtain k c0 where
    c0: "py_index (length lw) ht = Inr c0"
    and rest: "update_weights (lw[c0 := clip (- 30) 30 (lw ! c0 + real b * (1 * r / pd ! k) * g / of_int nc)]) pd g nc b ps = Inr lw'"
    by (auto simp: p Let_def split: sum.splits)
  let ?lw1 = "lw[c0 := clip (- 30) 30 (lw ! c0 + real b * (1 * r / pd ! k) * g / of_int nc)]"
  show ?case
  proof (cases "\<exists>i'<length ps. py_index (length lw) (fst (ps ! i')) = Inr c")
    case True
    then obtain i' where "i' < length ps" "py_index (length ?lw1) (fst (ps ! i')) = Inr c"
      by auto
    from Cons.IH [OF rest this] show ?thesis .
  next
    case False
    then have "\<forall>i'<length ps. py_index (length ?lw1) (fst (ps ! i')) \<noteq> Inr c" by simp
    from update_weights_untouched [OF rest this] have e: "lw' ! c = ?lw1 ! c" .
    from False Cons.prems(2,3) have "i = 0" by (cases i) auto
    with Cons.prems(3) c0 have "c0 = c" by (simp add: p)
    moreover have "c < length lw" using Cons.prems(3) py_index_less by blast
    ultimately show ?thesis using e clip_range by simp
  qed
qed







section \<open>Results at the example inputs\<close>

lemma e_bounds: "1 \<le> exp (1::real) - 1" "exp (1::real) - 1 \<le> 2"
  using exp_ge_add_one_self [of "1::real"] exp_le by simp_all

lemma gamma_2_val: "mab_gamma 1 (400 / 3) 2 = Inr gamma_2"
  by (simp add: gamma_2_def mab_gamma_def)

lemma gamma_10_val: "mab_gamma 1 (2 / 3) 10 = Inr gamma_10"
  by (simp add: gamma_10_def mab_gamma_def)

lemma gamma_2_bounds: "0 < gamma_2" "gamma_2 \<le> 1"
proof -
  let ?d = "(exp 1 - 1) * 1 * (400 / 3) :: real"
  have g: "gamma_2 = sqrt (2 * ln (2 / 1) / ?d)"
    by (simp add: gamma_2_def mab_gamma_def)
  have d: "400 / 3 \<le> ?d" using e_bounds(1) by simp
  have "ln (2::real) < 2" by (rule ln_less_self) simp
  then have l2: "ln (2::real) \<le> 2" by (rule less_imp_le)
  have l1: "0 < ln (2::real)" by (rule ln_gt_zero) simp
  have pos: "0 < 2 * ln (2 / 1) / ?d" using d l1 by simp
  then show "0 < gamma_2" unfolding g by simp
  have "2 * ln (2 / 1) / ?d \<le> 4 / (400 / 3)"
    using d l1 l2 by (intro frac_le) auto
  moreover have "4 / (400 / 3) \<le> (1::real)" by simp
  ultimately have "2 * ln (2 / 1) / ?d \<le> 1" by (rule order_trans)
  then show "gamma_2 \<le> 1" unfolding g by simp
qed

lemma gamma_10_big: "1 < gamma_10"
proof -
  let ?d = "(exp 1 - 1) * 1 * (2 / 3) :: real"
  have g: "gamma_10 = sqrt (10 * ln (10 / 1) / ?d)"
    by (simp add: gamma_10_def mab_gamma_def)
  have d: "0 < ?d" "?d \<le> 4 / 3" using e_bounds by simp_all
  have "exp (1::real) \<le> 10" using exp_le by simp
  then have l: "1 \<le> ln (10::real)" by (simp add: ln_ge_iff)
  have b: "10 / (4 / 3) \<le> 10 * ln (10 / 1) / ?d"
    using d l by (intro frac_le) auto
  have a: "(1::real) < 10 / (4 / 3)" by simp
  have "1 < 10 * ln (10 / 1) / ?d" by (rule less_le_trans [OF a b])
  then show ?thesis unfolding g by simp
qed

lemma bandit_2_new_init:
  "mab_init space_1d 1 200 False 500 None =
     Inr \<lparr>mab_search_space = space_1d, batch_size = 1, max_n_iter = 200,
          resample_tol = 500, noisy_black_box = False, n_cats = [2],
          best_ube = 400 / 3, gamma = [gamma_2],
          log_weights = [[0, 0]], prob_dist = None,
          mab_tr_manager = None, mab_buffer_x = [], mab_buffer_y = [],
          mab_best_y = None, mab_best_x = None\<rparr>"
  by (simp add: mab_init_def space_1d_def gamma_2_val np_zeros_def Let_def numeral_2_eq_2)

lemma bandit_2_new_eq:
  "bandit_2_new =
     \<lparr>mab_search_space = space_1d, batch_size = 1, max_n_iter = 200,
          resample_tol = 500, noisy_black_box = False, n_cats = [2],
          best_ube = 400 / 3, gamma = [gamma_2],
          log_weights = [[0, 0]], prob_dist = None,
          mab_tr_manager = None, mab_buffer_x = [], mab_buffer_y = [],
          mab_best_y = None, mab_best_x = None\<rparr>"
  by (simp add: bandit_2_new_def bandit_2_new_init)

lemma bandit_2_update:
  "update_prob_dist bandit_2_new = Inr (bandit_2_new\<lparr>prob_dist := Some [[1 / 2, 1 / 2]]\<rparr>)"
  by (simp add: bandit_2_new_eq update_prob_dist_def prob_dim_def item_def prob_row_def
      field_simps)

lemma bandit_2_eq: "bandit_2 = bandit_2_new\<lparr>prob_dist := Some [[1 / 2, 1 / 2]]\<rparr>"
  by (simp add: bandit_2_def bandit_2_update)

lemma bandit_10_new_init:
  "mab_init space_10 1 1 False 500 None =
     Inr \<lparr>mab_search_space = space_10, batch_size = 1, max_n_iter = 1,
          resample_tol = 500, noisy_black_box = False, n_cats = [10],
          best_ube = 2 / 3, gamma = [gamma_10],
          log_weights = [replicate 10 0], prob_dist = None,
          mab_tr_manager = None, mab_buffer_x = [], mab_buffer_y = [],
          mab_best_y = None, mab_best_x = None\<rparr>"
  by (simp add: mab_init_def space_10_def gamma_10_val np_zeros_def Let_def)

lemma bandit_10_new_eq:
  "bandit_10_new =
     \<lparr>mab_search_space = space_10, batch_size = 1, max_n_iter = 1,
          resample_tol = 500, noisy_black_box = False, n_cats = [10],
          best_ube = 2 / 3, gamma = [gamma_10],
          log_weights = [replicate 10 0], prob_dist = None,
          mab_tr_manager = None, mab_buffer_x = [], mab_buffer_y = [],
          mab_best_y = None, mab_best_x = None\<rparr>"
  by (simp add: bandit_10_new_def bandit_10_new_init)

lemma prob_row_uniform: "prob_row (replicate 10 0) g = replicate 10 (1 / 10)"
  by (simp add: prob_row_def Let_def sum_list_replicate field_simps)

lemma bandit_10_update:
  "update_prob_dist bandit_10_new =
     Inr (bandit_10_new\<lparr>prob_dist := Some [replicate 10 (1 / 10)]\<rparr>)"
  by (simp add: bandit_10_new_eq update_prob_dist_def prob_dim_def item_def prob_row_uniform)

lemma bandit_10_eq: "bandit_10 = bandit_10_new\<lparr>prob_dist := Some [replicate 10 (1 / 10)]\<rparr>"
  by (simp add: bandit_10_def bandit_10_update)

text \<open>
  C5 as stated fails: ten categories, batch size 1 and \<^verbatim>\<open>max_n_iter = 1\<close> give an
  exploration rate above 1, and the uniform probability \<open>1 / 10\<close> lies below
  \<^verbatim>\<open>gamma / n_cats\<close>.
\<close>

theorem prob_dist_below_floor:
  "mab_init space_10 1 1 False 500 None = Inr bandit_10_new \<and>
   update_prob_dist bandit_10_new = Inr bandit_10 \<and>
   the (prob_dist bandit_10) ! 0 ! 0 < gamma bandit_10_new ! 0 / of_int (n_cats bandit_10_new ! 0)"
proof -
  have p: "the (prob_dist bandit_10) ! 0 ! 0 = 1 / 10"
    by (simp add: bandit_10_eq)
  have g: "gamma bandit_10_new ! 0 / of_int (n_cats bandit_10_new ! 0) = gamma_10 / 10"
    by (simp add: bandit_10_new_eq)
  have "the (prob_dist bandit_10) ! 0 ! 0
          < gamma bandit_10_new ! 0 / of_int (n_cats bandit_10_new ! 0)"
    unfolding p g using gamma_10_big by simp
  moreover have "mab_init space_10 1 1 False 500 None = Inr bandit_10_new"
    by (simp add: bandit_10_new_eq bandit_10_new_init)
  moreover have "update_prob_dist bandit_10_new = Inr bandit_10"
    by (simp add: bandit_10_eq bandit_10_update)
  ultimately show ?thesis by simp
qed

text \<open>
  The amended C5 at the two-category bandit: both probabilities are \<open>1 / 2\<close>.
\<close>

theorem update_prob_dist_simplex_witness:
  "update_prob_dist bandit_2_new = Inr bandit_2 \<and>
   (0::nat) < length (n_cats bandit_2_new) \<and>
   0 < n_cats bandit_2_new ! 0 \<and>
   int (length (log_weights bandit_2_new ! 0)) = n_cats bandit_2_new ! 0 \<and>
   prob_dist bandit_2 = Some [[1 / 2, 1 / 2]] \<and>
   sum_list [1 / 2, 1 / 2 :: real] = 1 \<and>
   gamma bandit_2_new ! 0 \<le> 1 \<and>
   gamma bandit_2_new ! 0 / of_int (n_cats bandit_2_new ! 0) \<le> 1 / 2"
proof -
  have u: "update_prob_dist bandit_2_new = Inr bandit_2"
    by (simp add: bandit_2_update bandit_2_eq)
  have h: "(0::nat) < length (n_cats bandit_2_new)" "0 < n_cats bandit_2_new ! 0"
    "int (length (log_weights bandit_2_new ! 0)) = n_cats bandit_2_new ! 0"
    by (simp_all add: bandit_2_new_eq)
  have p: "prob_dist bandit_2 = Some [[1 / 2, 1 / 2]]" by (simp add: bandit_2_eq)
  have g: "gamma bandit_2_new ! 0 \<le> 1" using gamma_2_bounds(2) by (simp add: bandit_2_new_eq)
  from update_prob_dist_simplex [OF u h] p g
  have "gamma bandit_2_new ! 0 / of_int (n_cats bandit_2_new ! 0) \<le> 1 / 2" by simp
  then show ?thesis using u h p g by simp
qed


section \<open>Results: the trust-region manager\<close>

text \<open>
  C8. \<^verbatim>\<open>TrManagerBase.get_nominal_radius\<close> returns 1 whenever the search space has
  exactly one nominal dimension; otherwise it fails (the assertion) when no radius is
  stored under \<open>''nominal''\<close>, and returns the stored one when there is.
\<close>

theorem get_nominal_radius_cases:
  "(num_nominal (tm_search_space tm) = 1 \<longrightarrow> get_nominal_radius tm = Inr 1) \<and>
   (num_nominal (tm_search_space tm) \<noteq> 1 \<and> radii tm ''nominal'' = None
      \<longrightarrow> get_nominal_radius tm = Inl AssertionError) \<and>
   (\<forall>r. num_nominal (tm_search_space tm) \<noteq> 1 \<and> radii tm ''nominal'' = Some r
      \<longrightarrow> get_nominal_radius tm = Inr r)"
  by (simp add: get_nominal_radius_def)

text \<open>
  The three cases: a space with one nominal dimension, a space with three and no radius,
  and the same space after \<^verbatim>\<open>register_radius("nominal", 1, 3, 2)\<close>.
\<close>

theorem get_nominal_radius_cases_witness:
  "num_nominal (tm_search_space (tr_manager_init space_1d)) = 1 \<and>
   get_nominal_radius (tr_manager_init space_1d) = Inr 1 \<and>
   num_nominal (tm_search_space (tr_manager_init space_3d)) \<noteq> 1 \<and>
   radii (tr_manager_init space_3d) ''nominal'' = None \<and>
   get_nominal_radius (tr_manager_init space_3d) = Inl AssertionError \<and>
   register_radius (tr_manager_init space_3d) ''nominal'' 1 3 2 = Inr tr_nominal_2 \<and>
   num_nominal (tm_search_space tr_nominal_2) \<noteq> 1 \<and>
   radii tr_nominal_2 ''nominal'' = Some 2 \<and>
   get_nominal_radius tr_nominal_2 = Inr 2"
  using get_nominal_radius_cases [of "tr_manager_init space_1d"]
    get_nominal_radius_cases [of "tr_manager_init space_3d"]
    get_nominal_radius_cases [of tr_nominal_2]
  by (simp add: tr_manager_init_def space_1d_def space_3d_def tr_nominal_2_def
      register_radius_def)

section \<open>Results: construction of the genetic algorithm\<close>

lemma ga_init_fields:
  assumes "ga_init sp p np ne st al tm q = Inr g"
  shows "num_elite g = (if ne mod 2 \<noteq> 0 then ne + 1 else ne)"
    and "num_parents g = np" and "pop_size g = p"
    and "num_elite g \<le> num_parents g"
  using assms
  by (auto simp: ga_init_def Let_def split: if_splits sum.splits)

text \<open>
  C3 as stated fails: \<^verbatim>\<open>pop_size = 2\<close>, \<^verbatim>\<open>num_parents = 4\<close>, \<^verbatim>\<open>num_elite = 2\<close> is
  accepted, and the instance has more parents than the population size.
\<close>

theorem ga_init_parents_above_pop:
  "map_sum id (\<lambda>g. (num_elite g, num_parents g, pop_size g))
     (ga_init space_3d 2 4 2 True False None [[0, 0, 0], [1, 1, 1]]) = Inr (2, 4, 2)"
  by (simp add: ga_init_def space_3d_def Let_def upt_rec numeral_3_eq_3)

text \<open>
  C3, as amended. Every construction that succeeds leaves \<^verbatim>\<open>num_elite\<close> even and at
  most \<^verbatim>\<open>num_parents\<close>. (Nothing relates \<^verbatim>\<open>num_parents\<close> to \<^verbatim>\<open>pop_size\<close>.)
\<close>

theorem ga_init_elite_even:
  assumes "ga_init sp p np ne st al tm q = Inr g"
  shows "even (num_elite g) \<and> num_elite g \<le> num_parents g"
proof -
  have "even (if ne mod 2 \<noteq> 0 then ne + 1 else ne)"
    by (simp add: even_iff_mod_2_eq_zero) presburger
  then show ?thesis using ga_init_fields [OF assms] by simp
qed

text \<open>
  An odd \<^verbatim>\<open>num_elite = 3\<close> with four parents: the instance has four elite samples.
\<close>

theorem ga_init_elite_even_witness:
  "ga_init space_3d 4 4 3 True False None [[0, 0, 0], [1, 1, 1], [2, 2, 2], [0, 1, 2]]
     = Inr ga_odd_elite \<and>
   num_elite ga_odd_elite = 4 \<and> even (num_elite ga_odd_elite) \<and>
   num_elite ga_odd_elite \<le> num_parents ga_odd_elite"
proof -
  have i: "ga_init space_3d 4 4 3 True False None [[0, 0, 0], [1, 1, 1], [2, 2, 2], [0, 1, 2]]
     = Inr ga_odd_elite"
    by (simp add: ga_odd_elite_def ga_init_def space_3d_def Let_def upt_rec numeral_3_eq_3)
  from ga_init_elite_even [OF i] ga_init_fields(1) [OF i] show ?thesis
    using i by simp
qed

section \<open>Results at the example inputs: observations\<close>

lemma mab_init_buffer:
  "mab_init sp bs it nz tol tm = Inr s \<Longrightarrow> mab_buffer_x s = [] \<and> mab_buffer_y s = []"
  by (auto simp: mab_init_def Let_def split: if_splits sum.splits)

lemma mab_observe_buffer:
  assumes "mab_observe s x y = Inr s'"
  shows "mab_buffer_x s' = mab_buffer_x s @ x \<and> mab_buffer_y s' = mab_buffer_y s @ y \<and>
         length x = length y"
  using assms
  by (auto simp: mab_observe_def Let_def data_buffer_append_def
      split: if_splits sum.splits option.splits)



section \<open>Results: mutation\<close>

lemma categories_set:
  assumes "categories lbs ubs xrow idx = Inr cs"
  shows "set cs = {j. lbs ! idx \<le> j \<and> j < ubs ! idx \<and> j \<noteq> xrow ! idx}"
proof -
  from assms have i: "idx < length lbs" "idx < length ubs"
    by (auto simp: categories_def item_def split: if_splits sum.splits)
  show ?thesis
  proof (cases "[lbs ! idx .. ubs ! idx - 1] = []")
    case True
    then have "cs = []" using assms i by (simp add: categories_def item_def)
    moreover have "\<not> lbs ! idx \<le> ubs ! idx - 1" using True by (simp add: upto_Nil)
    ultimately show ?thesis by auto
  next
    case False
    then have "cs = filter (\<lambda>j. j \<noteq> xrow ! idx) [lbs ! idx .. ubs ! idx - 1]"
      using assms i by (auto simp: categories_def item_def split: if_splits)
    then show ?thesis by auto
  qed
qed

text \<open>
  C2. The claim has the new category drawn from the whole domain \<open>[lb[idx], ub[idx]]\<close>
  but for the current value. The candidates of \<^verbatim>\<open>_mutate\<close> are the integers from
  \<^verbatim>\<open>lb[idx]\<close> up to, and not including, \<^verbatim>\<open>ub[idx]\<close>, without the entry of the
  unreordered row at \<open>idx\<close>: the upper bound, a category of the domain, is never a
  candidate.
\<close>

theorem mutate_candidates_end_before_ub:
  assumes "categories lbs ubs xrow idx = Inr cs"
  shows "set cs = {j. lbs ! idx \<le> j \<and> j < ubs ! idx \<and> j \<noteq> xrow ! idx} \<and> ubs ! idx \<notin> set cs"
  using categories_set [OF assms] by simp

text \<open>
  At three categories \<open>0, 1, 2\<close> and the current value 0, the only candidate is 1.
\<close>

theorem mutate_candidates_end_before_ub_witness:
  "categories (lb ga_plain) (ub ga_plain) [0, 0, 0] 0 = Inr [1] \<and>
   lb ga_plain ! 0 = 0 \<and> ub ga_plain ! 0 = 2 \<and> (2::int) \<notin> set [1]"
proof -
  have c: "categories (lb ga_plain) (ub ga_plain) [0, 0, 0] 0 = Inr [1]" by code_simp
  have b: "lb ga_plain ! 0 = 0" "ub ga_plain ! 0 = 2" by code_simp+
  from mutate_candidates_end_before_ub [OF c] show ?thesis using c b by simp
qed

text \<open>
  With two categories \<open>0, 1\<close> and the current value 0 there is no candidate at all, and
  \<^verbatim>\<open>np.random.choice\<close> raises.
\<close>

lemma mutate_binary_zero_raises:
  "\<not> isl (ga_init space_binary 2 2 2 True False None [[0, 0, 0], [1, 1, 1]]) \<and>
   mutate 1 ga_binary [[0, 0, 0]] [0] = Some (Inl ValueError)"
  by code_simp

section \<open>Results: the population step\<close>

text \<open>
  C6. The claim bounds the Hamming distance of every suggested sample to the centre by
  \<^verbatim>\<open>get_nominal_radius()\<close>. The mutation accepts a candidate within
  \<^verbatim>\<open>radii['nominal']\<close> instead. In a space with one nominal and two ordinal dimensions
  and the radius 2 registered, \<^verbatim>\<open>get_nominal_radius()\<close> is 1; after the observations
  \<open>([0,0,0], 1), ([1,0,0], 2)\<close> a run of \<^verbatim>\<open>_generate_new_population\<close> queues
  \<open>[1,1,0]\<close>, at distance 2 from the centre \<open>[0,0,0]\<close>.
\<close>

theorem mutation_leaves_nominal_radius:
  "\<not> isl (register_radius (tr_manager_init space_mixed) ''nominal'' 1 3 2) \<and>
   \<not> isl (set_center tr_mixed_radius (Some [0, 0, 0])) \<and>
   \<not> isl (ga_init space_mixed 2 2 2 True False (Some tr_mixed) [[1, 0, 0]]) \<and>
   \<not> isl (ga_observe ga_mixed_new [[0, 0, 0], [1, 0, 0]] [1, 2]) \<and>
   map_option (map_sum id (\<lambda>r. x_queue (fst r)))
     (generate_new_population 5 ga_mixed [1, 0, 0, 1, 0, 1, 0])
     = Some (Inr [[0, 1, 0], [1, 1, 0]]) \<and>
   ga_tr_center ga_mixed = Some [0, 0, 0] \<and>
   map_option get_nominal_radius (ga_tr_manager ga_mixed) = Some (Inr 1) \<and>
   hamming_distance [0, 0, 0] [1, 1, 0] = 2"
  by code_simp

text \<open>
  C7. The claim has both children differ from every sample already placed in the new
  population. With \<^verbatim>\<open>allow_repeating_suggestions\<close> off, the second child is tested
  against the observed samples only: a run with population size 4 places \<open>[0,1,0]\<close> as
  the second child of the first pair and again as the second child of the second pair.
\<close>

theorem second_child_repeats_placed_sample:
  "\<not> isl (ga_init space_3d 4 2 2 True False None [[0, 0, 0], [1, 1, 1], [0, 1, 1], [1, 0, 0]]) \<and>
   \<not> isl (ga_observe ga_plain_new [[0, 0, 0], [1, 1, 1], [0, 1, 1], [1, 0, 0]] [1, 2, 3, 4]) \<and>
   \<not> allow_repeating_suggestions ga_plain \<and>
   map_option (map_sum id (\<lambda>r. x_queue (fst r)))
     (generate_new_population 5 ga_plain [0, 1, 0, 1, 0, 2, 0, 0, 1, 0, 2, 0, 2, 0])
     = Some (Inr [[1, 1, 0], [0, 1, 0], [1, 0, 1], [0, 1, 0]])"
  by code_simp




lemma generate_elite:
  assumes "generate_new_population n g t = Some (Inr (g', t'))"
  shows "\<exists>g1. update_elite g (map fst (sort_population (x_pop g) (y_pop g)))
                 (map snd (sort_population (x_pop g) (y_pop g))) = Inr g1 \<and>
              x_elite g' = x_elite g1 \<and> y_elite g' = y_elite g1"
  using assms
  by (auto simp: generate_new_population_def Let_def and_then_def raise_def ret_def
      split: if_splits sum.splits option.splits prod.splits)


lemma generate_elite_lengths:
  assumes "generate_new_population n g t = Some (Inr (g', t'))"
    and "length (x_pop g) = length (y_pop g)"
    and "\<forall>xe ye. x_elite g = Some xe \<and> y_elite g = Some ye \<longrightarrow> length xe = length ye"
  shows "\<exists>xe ye. x_elite g' = Some xe \<and> y_elite g' = Some ye \<and> length xe = length ye"
proof -
  from generate_elite [OF assms(1)] obtain g1 where
    u: "update_elite g (map fst (sort_population (x_pop g) (y_pop g)))
          (map snd (sort_population (x_pop g) (y_pop g))) = Inr g1"
    and e: "x_elite g' = x_elite g1" "y_elite g' = y_elite g1"
    by blast
  show ?thesis
    using u e
    by (auto simp: update_elite_def Let_def slice_to_def split: option.splits)
qed


end
